theory Spec2Isabelle
  imports Complex_Main "HOL-Library.AList"
begin

text \<open>
  A model of the audit service: the two audit classes with their runner, orchestrator and
  formatter (\<open>lighthouse-audit.js\<close>, \<open>pagespeedinsights-audit.js\<close>), the store writer
  (\<open>utils/bq.js\<close>) and the two handlers of \<open>app.js\<close> that use them, followed by the
  properties of the specification that are stated about them. Everything outside the
  program (the browser, the audit engines, the task queue, the store, the clock, the
  text of the runtime's own errors) is a parameter of the functions that meet it.
\<close>

section \<open>JavaScript values, property access and errors\<close>

text \<open>
  The values the audit code handles: request fields, backend responses, raw audit results
  and formatted records. An object is the list of its own properties in insertion order.
  Numbers are only copied and tested for truthiness by the code, so they are idealised as
  rationals. Properties of primitive values (such as the length of a string), properties
  inherited from \<open>Object.prototype\<close> and arrays as property holders are outside the
  model: the arrays of the code (URL lists, result lists) are typed lists.
\<close>

datatype jsval =
    JUndefined
  | JNull
  | JBool bool
  | JNum rat
  | JStr string
  | JObj "(string \<times> jsval) list"

text \<open>
  What a \<open>catch (e)\<close> of the code can see. A \<open>TypeError\<close> is raised by the runtime when a
  property of \<open>undefined\<close> or \<open>null\<close> is read, or when a property is assigned on a value
  that is not an object (the files are in strict mode). The text of its message belongs to
  the runtime and is a parameter \<open>rt\<close> of every function that reads \<open>e.message\<close>.
\<close>

datatype type_fault = ReadProp string jsval | SetProp string jsval

datatype js_error = Error string | TypeError type_fault

fun message :: "(type_fault \<Rightarrow> string) \<Rightarrow> js_error \<Rightarrow> string" where
  "message rt (Error m) = m"
| "message rt (TypeError f) = rt f"

fun truthy :: "jsval \<Rightarrow> bool" where
  "truthy JUndefined = False"
| "truthy JNull = False"
| "truthy (JBool b) = b"
| "truthy (JNum r) = (r \<noteq> 0)"
| "truthy (JStr s) = (s \<noteq> [])"
| "truthy (JObj ps) = True"

text \<open>\<open>typeof v\<close>\<close>

fun typeof :: "jsval \<Rightarrow> string" where
  "typeof JUndefined = ''undefined''"
| "typeof JNull = ''object''"
| "typeof (JBool b) = ''boolean''"
| "typeof (JNum r) = ''number''"
| "typeof (JStr s) = ''string''"
| "typeof (JObj ps) = ''object''"

text \<open>\<open>v[p]\<close>: reading a property.\<close>

fun get_prop :: "jsval \<Rightarrow> string \<Rightarrow> js_error + jsval" where
  "get_prop JUndefined p = Inl (TypeError (ReadProp p JUndefined))"
| "get_prop JNull p = Inl (TypeError (ReadProp p JNull))"
| "get_prop (JObj ps) p = Inr (case map_of ps p of None \<Rightarrow> JUndefined | Some v \<Rightarrow> v)"
| "get_prop v p = Inr JUndefined"

text \<open>\<open>v[p] = x\<close> in strict mode: the value after the assignment.\<close>

fun set_prop :: "jsval \<Rightarrow> string \<Rightarrow> jsval \<Rightarrow> js_error + jsval" where
  "set_prop (JObj ps) p x = Inr (JObj (AList.update p x ps))"
| "set_prop v p x = Inl (TypeError (SetProp p v))"

text \<open>\<open>xs[i]\<close> on an array: \<open>undefined\<close> out of range.\<close>

definition at_index :: "jsval list \<Rightarrow> nat \<Rightarrow> jsval" where
  "at_index xs i = (if i < length xs then xs ! i else JUndefined)"

text \<open>\<open>xs.join(',')\<close> on an array of strings.\<close>

fun join_comma :: "string list \<Rightarrow> string" where
  "join_comma [] = []"
| "join_comma [s] = s"
| "join_comma (s # t # ts) = s @ '','' @ join_comma (t # ts)"

text \<open>\<open>s.split(c)\<close> for a one-character separator.\<close>

fun split_on :: "char \<Rightarrow> string \<Rightarrow> string list" where
  "split_on c [] = [[]]"
| "split_on c (x # xs) =
     (if x = c then [] # split_on c xs
      else (case split_on c xs of [] \<Rightarrow> [[x]] | y # ys \<Rightarrow> (x # y) # ys))"


section \<open>Chunk Scheduler (app.js, scheduleAudits)\<close>

text \<open>
  Modelled from the spec: \<open>getChunkedList\<close> of \<open>utils/api\<close>, which is not among the
  sources. Section 4.4 of the specification: the list is partitioned into contiguous chunks
  of at most \<open>chunkSize\<close> elements, preserving the original order within and across
  chunks. The specification gives no chunking for a chunk size of 0; the model returns no
  chunk there. The third argument of the call in \<open>scheduleAudits\<close> (\<open>isURL\<close>, likewise not
  among the sources) is the validity predicate of the URL batch, whose elements the
  specification requires to be valid; it is not part of the model.
\<close>

function getChunkedList :: "'a list \<Rightarrow> nat \<Rightarrow> 'a list list" where
  "getChunkedList list chunkSize =
     (if list = [] \<or> chunkSize = 0 then []
      else take chunkSize list # getChunkedList (drop chunkSize list) chunkSize)"
  by pat_completeness auto
termination
  by (relation "measure (\<lambda>(list, chunkSize). length list)") auto

declare getChunkedList.simps [simp del]

text \<open>
  The task of one chunk. The body of the request is the JSON text of
  \<open>{urls: chunk, blockedRequests}\<close> in base64; the model keeps the two lists and leaves
  the encoding abstract.
\<close>

datatype task_body = Base64_JSON "string list" "string list"

record httpRequest =
  httpMethod :: string
  url :: string
  headers :: "(string \<times> string) list"
  body :: task_body
  scheduleTime :: rat

record create_request =
  parent :: string
  task :: httpRequest

text \<open>
  The collaborators of \<open>scheduleAudits\<close>: the queue path built from the environment, the
  service URL, the outcome of the \<open>i\<close>-th \<open>createTask\<close> call (the name of the created
  task, or the error it rejects with) and the \<open>i\<close>-th reading of \<open>Date.now()\<close>, in
  milliseconds.
\<close>

record queue_env =
  queuePath :: string
  SERVICE_URL :: string
  createTask :: "nat \<Rightarrow> create_request \<Rightarrow> js_error + string"
  now :: "nat \<Rightarrow> nat"

text \<open>An entry \<open>{name, urls}\<close> of the response: the task's name and the chunk's URLs.\<close>

type_synonym created_task = "string \<times> string list"

text \<open>
  What one invocation does: the requests handed to \<open>createTask\<close>, in order, and either
  the \<open>{tasks: [...]}\<close> of the response or the error of the \<open>createTask\<close> call that
  rejected (the handler has no \<open>catch\<close>, so the loop stops there).
\<close>

record schedule_result =
  submitted :: "create_request list"
  response :: "js_error + created_task list"

text \<open>
  The request of loop iteration \<open>i\<close>. Its schedule time is
  \<open>inSeconds + Date.now() / 1000\<close>, with the clock read in that iteration; the sum is
  taken in exact arithmetic.
\<close>

definition build_task :: "queue_env \<Rightarrow> string list \<Rightarrow> nat \<Rightarrow> nat \<Rightarrow> string list \<Rightarrow> create_request" where
  "build_task q blocked i inSeconds chunk =
     \<lparr>parent = queuePath q,
      task = \<lparr>httpMethod = ''POST'',
              url = SERVICE_URL q @ ''/audit'',
              headers = [(''Content-Type'', ''application/json'')],
              body = Base64_JSON chunk blocked,
              scheduleTime = of_nat inSeconds + of_nat (now q i) / 1000\<rparr>\<rparr>"

text \<open>
  The \<open>for\<close> loop over the chunks: \<open>i\<close> is the loop index, \<open>inSeconds\<close> the counter that
  starts at 10 and grows by 10, \<open>sent\<close> and \<open>createTasks\<close> what has been accumulated.
\<close>

fun schedule_loop ::
  "queue_env \<Rightarrow> string list \<Rightarrow> nat \<Rightarrow> nat \<Rightarrow> string list list \<Rightarrow>
   create_request list \<Rightarrow> created_task list \<Rightarrow> schedule_result" where
  "schedule_loop q blocked i inSeconds [] sent createTasks =
     \<lparr>submitted = sent, response = Inr createTasks\<rparr>"
| "schedule_loop q blocked i inSeconds (chunk # chunks) sent createTasks =
     (let request = build_task q blocked i inSeconds chunk in
      case createTask q i request of
        Inl e \<Rightarrow> \<lparr>submitted = sent @ [request], response = Inl e\<rparr>
      | Inr nm \<Rightarrow>
          schedule_loop q blocked (Suc i) (inSeconds + 10) chunks (sent @ [request])
            (createTasks @ [(nm, chunk)]))"

text \<open>
  The body of \<open>POST /audit-async\<close>: \<open>urls\<close> and the optional \<open>blockedRequests\<close>.
\<close>

definition scheduleAudits :: "queue_env \<Rightarrow> string list \<Rightarrow> string list option \<Rightarrow> schedule_result" where
  "scheduleAudits q body_urls body_blockedRequests =
     (let chunks = getChunkedList body_urls 1;
          blockedRequests = (case body_blockedRequests of None \<Rightarrow> [] | Some b \<Rightarrow> b)
      in schedule_loop q blockedRequests 0 10 chunks [] [])"


section \<open>Sequencing of fallible steps\<close>

text \<open>
  A step either throws (\<open>Inl\<close>) or yields a value (\<open>Inr\<close>); \<open>and_then\<close> runs the next
  step on the value and passes an error on, as statements in sequence do.
\<close>

definition and_then :: "'e + 'a \<Rightarrow> ('a \<Rightarrow> 'e + 'b) \<Rightarrow> 'e + 'b" where
  "and_then m f = (case m of Inl e \<Rightarrow> Inl e | Inr x \<Rightarrow> f x)"


section \<open>The audit classes (lighthouse-audit.js, pagespeedinsights-audit.js)\<close>

text \<open>
  The audit configurations are modules that are not among the sources
  (\<open>perfConfig.auditConfig\<close> and the desktop and mobile configurations of the engine);
  the code only passes them on.
\<close>

datatype audit_config = PerfConfig | DesktopConfig | LrMobileConfig

text \<open>
  The fields both classes have, then each class. \<open>auditFieldMapping\<close> is the list
  \<open>Object.entries\<close> gives for the mapping object: pairs of an output field and a raw key.
\<close>

record audit_state =
  urls :: "string list"
  auditResults :: "jsval list"
  auditFieldMapping :: "(string \<times> string) list"
  performanceScore :: "jsval list"

record LighthouseAudit = audit_state +
  blockedRequestPatterns :: "string list"
  auditConfig :: audit_config

record PageSpeedInsightsAudit = audit_state +
  mode :: "string option"

definition new_LighthouseAudit ::
  "string list \<Rightarrow> string list option \<Rightarrow> audit_config \<Rightarrow> (string \<times> string) list \<Rightarrow> LighthouseAudit" where
  "new_LighthouseAudit us blocked config mapping =
     \<lparr>urls = us, auditResults = [], auditFieldMapping = mapping, performanceScore = [],
      blockedRequestPatterns = (case blocked of None \<Rightarrow> [] | Some b \<Rightarrow> b),
      auditConfig = config\<rparr>"



subsection \<open>Result Formatter (getBQFormatResults)\<close>

text \<open>
  The values \<open>BigQuery.date\<close>, \<open>BigQuery.datetime\<close> and \<open>BigQuery.time\<close> build from the
  reading of the wall clock taken by one call of \<open>getBQFormatResults\<close>.
\<close>

record stamps =
  bq_date :: jsval
  bq_datetime :: jsval
  bq_time :: jsval

text \<open>
  The two values one pair of the mapping contributes:
  \<open>audit[rawKey] ? audit[rawKey].numericValue : 0\<close> and the same for \<open>score\<close>.
\<close>

definition field_values :: "jsval \<Rightarrow> string \<Rightarrow> js_error + jsval \<times> jsval" where
  "field_values audit rawKey =
     and_then (get_prop audit rawKey) (\<lambda>item.
     and_then (if truthy item then get_prop item ''numericValue'' else Inr (JNum 0)) (\<lambda>nv.
     and_then (if truthy item then get_prop item ''score'' else Inr (JNum 0)) (\<lambda>sc.
       Inr (nv, sc))))"

text \<open>The \<open>reduce\<close> over the entries of the mapping; \<open>res\<close> is the object being filled.\<close>

fun reduce_fields ::
  "(string \<times> string) list \<Rightarrow> jsval \<Rightarrow> (string \<times> jsval) list \<Rightarrow> js_error + (string \<times> jsval) list" where
  "reduce_fields [] audit res = Inr res"
| "reduce_fields (keyVal # rest) audit res =
     (case field_values audit (snd keyVal) of
        Inl e \<Rightarrow> Inl e
      | Inr (nv, sc) \<Rightarrow>
          reduce_fields rest audit
            (AList.update (fst keyVal @ ''_score'') sc (AList.update (fst keyVal) nv res)))"

text \<open>The assignments both classes make after the \<open>reduce\<close>.\<close>

definition stamp_fields ::
  "stamps \<Rightarrow> jsval list \<Rightarrow> nat \<Rightarrow> jsval \<Rightarrow> (string \<times> jsval) list \<Rightarrow> js_error + (string \<times> jsval) list" where
  "stamp_fields T scores it audit formattedAudit =
     and_then (get_prop audit ''url'') (\<lambda>u.
       Inr (AList.update ''url'' u
            (AList.update ''time'' (bq_time T)
            (AList.update ''datetime'' (bq_datetime T)
            (AList.update ''date'' (bq_date T)
            (AList.update ''performanceScore'' (at_index scores it) formattedAudit))))))"

definition lh_format_audit :: "stamps \<Rightarrow> LighthouseAudit \<Rightarrow> nat \<Rightarrow> jsval \<Rightarrow> js_error + jsval" where
  "lh_format_audit T this it audit =
     and_then (reduce_fields (auditFieldMapping this) audit []) (\<lambda>formattedAudit.
     and_then (stamp_fields T (performanceScore this) it audit formattedAudit) (\<lambda>stamped.
       Inr (JObj (AList.update ''blockedRequests''
                   (JStr (join_comma (blockedRequestPatterns this))) stamped))))"

definition psi_format_audit :: "stamps \<Rightarrow> PageSpeedInsightsAudit \<Rightarrow> nat \<Rightarrow> jsval \<Rightarrow> js_error + jsval" where
  "psi_format_audit T this it audit =
     and_then (reduce_fields (auditFieldMapping this) audit []) (\<lambda>formattedAudit.
     and_then (stamp_fields T (performanceScore this) it audit formattedAudit) (\<lambda>stamped.
       Inr (JObj stamped)))"

text \<open>
  The \<open>map\<close> over \<open>auditResults\<close>, with the counter \<open>it\<close> that only a defined result
  advances. The callback returns nothing for an undefined result, so \<open>map\<close> puts
  \<open>undefined\<close> at its position.
\<close>

fun format_loop :: "(nat \<Rightarrow> jsval \<Rightarrow> js_error + jsval) \<Rightarrow> nat \<Rightarrow> jsval list \<Rightarrow> js_error + jsval list" where
  "format_loop fmt it [] = Inr []"
| "format_loop fmt it (audit # audits) =
     (if typeof audit \<noteq> ''undefined'' then
        (case fmt it audit of
           Inl e \<Rightarrow> Inl e
         | Inr formattedAudit \<Rightarrow>
             (case format_loop fmt (Suc it) audits of
                Inl e \<Rightarrow> Inl e
              | Inr formatted \<Rightarrow> Inr (formattedAudit # formatted)))
      else
        (case format_loop fmt it audits of
           Inl e \<Rightarrow> Inl e
         | Inr formatted \<Rightarrow> Inr (JUndefined # formatted)))"

definition lh_getBQFormatResults :: "stamps \<Rightarrow> LighthouseAudit \<Rightarrow> js_error + jsval list" where
  "lh_getBQFormatResults T this = format_loop (lh_format_audit T this) 0 (auditResults this)"

definition psi_getBQFormatResults :: "stamps \<Rightarrow> PageSpeedInsightsAudit \<Rightarrow> js_error + jsval list" where
  "psi_getBQFormatResults T this = format_loop (psi_format_audit T this) 0 (auditResults this)"


subsection \<open>Single-URL Audit Runner (performAudit)\<close>

text \<open>
  Every response of a backend is a value of its own: the tag the runner writes into one
  response is not seen in another.

  What one run of the browser-driven class meets: whether \<open>puppeteer.launch\<close> rejects, the
  endpoint of the browser, whether the \<open>i\<close>-th \<open>browser.newPage()\<close> rejects, the outcome of
  the \<open>i\<close>-th call of the engine (given the URL, the blocked patterns, the port and the
  configuration), and the clock as \<open>getBQFormatResults\<close> reads it.
\<close>

record world =
  launch_error :: "js_error option"
  wsEndpoint :: string
  newPage :: "nat \<Rightarrow> js_error option"
  lighthouse :: "nat \<Rightarrow> string \<Rightarrow> string list \<Rightarrow> jsval \<Rightarrow> audit_config \<Rightarrow> js_error + jsval"
  today :: stamps

text \<open>\<open>page.browser().wsEndpoint().split(':')[2].split('/')[0]\<close>\<close>

definition debugging_port :: "string \<Rightarrow> js_error + jsval" where
  "debugging_port ws =
     (case drop 2 (split_on CHR '':'' ws) of
        [] \<Rightarrow> Inl (TypeError (ReadProp ''split'' JUndefined))
      | part # _ \<Rightarrow>
          (case split_on CHR ''/'' part of [] \<Rightarrow> Inr JUndefined | port # _ \<Rightarrow> Inr (JStr port)))"

text \<open>The \<open>then\<close> callback of the browser-driven runner.\<close>

definition lh_then :: "string \<Rightarrow> jsval \<Rightarrow> js_error + jsval" where
  "lh_then u metrics =
     and_then (get_prop metrics ''lhr'') (\<lambda>lhr.
     and_then (get_prop lhr ''audits'') (\<lambda>audits.
     and_then (get_prop lhr ''categories'') (\<lambda>categories.
     and_then (get_prop categories ''performance'') (\<lambda>category.
     and_then (get_prop category ''score'') (\<lambda>performance.
       if typeof audits \<noteq> ''undefined'' \<and> audits \<noteq> JNull then
         and_then (set_prop audits ''url'' (JStr u)) (\<lambda>tagged.
           Inr (JObj [(''metrics'', tagged), (''performance'', performance)]))
       else Inr JUndefined)))))"

text \<open>
  \<open>LighthouseAudit.performAudit\<close>: the port is derived outside the promise chain, so an
  error there is not wrapped; an error of the engine or of the callback is caught and
  thrown again with the prefix.
\<close>

definition lh_performAudit ::
  "(type_fault \<Rightarrow> string) \<Rightarrow> world \<Rightarrow> LighthouseAudit \<Rightarrow> nat \<Rightarrow> string \<Rightarrow> string list \<Rightarrow> js_error + jsval" where
  "lh_performAudit rt w this i u blockedUrlPatterns =
     and_then (debugging_port (wsEndpoint w)) (\<lambda>port.
       case and_then (lighthouse w i u blockedUrlPatterns port (auditConfig this)) (lh_then u) of
         Inl e \<Rightarrow> Inl (Error (''LH Audit error: '' @ message rt e))
       | Inr result \<Rightarrow> Inr result)"

text \<open>
  The remote-API runner: its options (\<open>strategy\<close>, and \<open>key\<close> or \<open>nokey\<close> according to
  the environment), its collaborators, its callback and the call.
\<close>

record psi_options =
  strategy :: string
  key :: "string option"
  nokey :: "string option"

record psi_world =
  GOOGLE_INSIGHTS_KEY :: "string option"
  psi :: "string \<Rightarrow> psi_options \<Rightarrow> js_error + jsval"

definition psi_then :: "string \<Rightarrow> jsval \<Rightarrow> js_error + jsval" where
  "psi_then u metrics =
     and_then (get_prop metrics ''data'') (\<lambda>d.
     and_then (get_prop d ''lighthouseResult'') (\<lambda>lighthouseResult.
     and_then (get_prop lighthouseResult ''audits'') (\<lambda>audits.
     and_then (get_prop lighthouseResult ''categories'') (\<lambda>categories.
     and_then (get_prop categories ''performance'') (\<lambda>category.
     and_then (get_prop category ''score'') (\<lambda>performance.
       if typeof audits \<noteq> ''undefined'' \<and> audits \<noteq> JNull then
         and_then (set_prop audits ''url'' (JStr u)) (\<lambda>tagged.
           Inr (JObj [(''metrics'', tagged), (''performance'', performance)]))
       else Inr JUndefined))))))"

definition psi_options_for :: "psi_world \<Rightarrow> string option \<Rightarrow> psi_options" where
  "psi_options_for w m =
     \<lparr>strategy = (if m = Some ''desktop'' then ''desktop'' else ''mobile''),
      key = (case GOOGLE_INSIGHTS_KEY w of
               None \<Rightarrow> None
             | Some k \<Rightarrow> (if k \<noteq> [] then Some k else None)),
      nokey = (case GOOGLE_INSIGHTS_KEY w of
                 None \<Rightarrow> Some ''true''
               | Some k \<Rightarrow> (if k \<noteq> [] then None else Some ''true''))\<rparr>"

definition psi_performAudit ::
  "(type_fault \<Rightarrow> string) \<Rightarrow> psi_world \<Rightarrow> string \<Rightarrow> string option \<Rightarrow> js_error + jsval" where
  "psi_performAudit rt w u m =
     (case and_then (psi w u (psi_options_for w m)) (psi_then u) of
        Inl e \<Rightarrow> Inl (Error (''PSI Audit error: '' @ message rt e))
      | Inr result \<Rightarrow> Inr result)"


subsection \<open>Batch Audit Orchestrator (LighthouseAudit.run)\<close>

text \<open>
  In the source the object literal of the launch options lacks a comma after
  \<open>acceptInsecureCerts: true\<close>, which keeps the file from parsing. The model reads the
  options as the list that is meant; nothing below depends on them.

  What a call of \<open>run\<close> leaves: what it returns or throws, the instance after it, and the
  URLs whose loop iteration was entered, in order.
\<close>

record run_result =
  outcome :: "js_error + jsval list"
  this_after :: LighthouseAudit
  visited :: "string list"

text \<open>
  The body of the \<open>try\<close> for one URL: a fresh page, the audit, then the two reads on its
  result. It yields the two values the loop pushes. Nothing has been pushed when it throws:
  the only read after the first push is \<open>results.metrics\<close>, on a value whose property
  \<open>performance\<close> has just been read.
\<close>

definition try_audit ::
  "(type_fault \<Rightarrow> string) \<Rightarrow> world \<Rightarrow> LighthouseAudit \<Rightarrow> nat \<Rightarrow> string \<Rightarrow> js_error + jsval \<times> jsval" where
  "try_audit rt w this i u =
     and_then (case newPage w i of Some e \<Rightarrow> Inl e | None \<Rightarrow> Inr ()) (\<lambda>page.
     and_then (lh_performAudit rt w this i u (blockedRequestPatterns this)) (\<lambda>results.
     and_then (get_prop results ''performance'') (\<lambda>performance.
     and_then (get_prop results ''metrics'') (\<lambda>metrics.
       Inr (performance, metrics)))))"

fun run_loop ::
  "(type_fault \<Rightarrow> string) \<Rightarrow> world \<Rightarrow> nat \<Rightarrow> string list \<Rightarrow> LighthouseAudit \<Rightarrow> string list \<Rightarrow> run_result" where
  "run_loop rt w i [] this seen =
     \<lparr>outcome = Inr (auditResults this), this_after = this, visited = seen\<rparr>"
| "run_loop rt w i (u # rest) this seen =
     (case try_audit rt w this i u of
        Inl e \<Rightarrow>
          \<lparr>outcome = Inl (Error (message rt e @ '' on '' @ u)), this_after = this,
           visited = seen @ [u]\<rparr>
      | Inr (performance, metrics) \<Rightarrow>
          run_loop rt w (Suc i) rest
            (this\<lparr>performanceScore := performanceScore this @ [performance],
                  auditResults := auditResults this @ [metrics]\<rparr>)
            (seen @ [u]))"

definition run :: "(type_fault \<Rightarrow> string) \<Rightarrow> world \<Rightarrow> LighthouseAudit \<Rightarrow> run_result" where
  "run rt w this =
     (case launch_error w of
        Some e \<Rightarrow> \<lparr>outcome = Inl e, this_after = this, visited = []\<rparr>
      | None \<Rightarrow> run_loop rt w 0 (urls this) this [])"


section \<open>Storage (utils/bq.js, writeResultStream)\<close>

definition allowedFields :: "string list" where
  "allowedFields =
     [''firstContentfulPaint'', ''largestContentfulPaint'', ''firstMeaningfulPaint'',
      ''speedIndex'', ''estimatedInputLatency'', ''totalBlockingTime'', ''maxPotentialFID'',
      ''cumulativeLayoutShift'', ''firstCpuIdle'', ''interactive'', ''serverResponseTime'',
      ''performanceScore'', ''date'', ''time'', ''formattedAudit'', ''url'', ''mode'',
      ''firstContentfulPaint_score'', ''largestContentfulPaint_score'',
      ''firstMeaningfulPaint_score'', ''speedIndex_score'', ''cumulativeLayoutShift_score'',
      ''totalBlockingTime_score'', ''interactive_score'', ''serverResponseTime_score'']"

text \<open>The \<open>forEach\<close> that copies the allowed fields of one row.\<close>

fun prepare_row :: "jsval \<Rightarrow> string list \<Rightarrow> (string \<times> jsval) list \<Rightarrow> js_error + (string \<times> jsval) list" where
  "prepare_row row [] preparedRow = Inr preparedRow"
| "prepare_row row (field # others) preparedRow =
     (case get_prop row field of
        Inl e \<Rightarrow> Inl e
      | Inr v \<Rightarrow> prepare_row row others (AList.update field v preparedRow))"

fun prepare_rows :: "jsval list \<Rightarrow> js_error + jsval list" where
  "prepare_rows [] = Inr []"
| "prepare_rows (row # rows) =
     (case prepare_row row allowedFields [] of
        Inl e \<Rightarrow> Inl e
      | Inr preparedRow \<Rightarrow>
          (case prepare_rows rows of
             Inl e \<Rightarrow> Inl e
           | Inr preparedRows \<Rightarrow> Inr (JObj preparedRow # preparedRows)))"

text \<open>
  A line of the console: a text, or the JSON text of an error, which the model does not
  spell out.
\<close>

datatype log_line = Line string | Json_of js_error

text \<open>
  \<open>writeResultStream\<close>: the rows handed to \<open>insert\<close> and what the two handlers of its
  promise print. \<open>insertion\<close> is the outcome of \<open>insert\<close> (\<open>None\<close> when it succeeds, the
  error it rejects with otherwise); its promise is neither awaited nor returned, and its
  rejection is caught by the \<open>catch\<close> handler. The function itself throws only when a row
  cannot be read. The client, the dataset and the table named by the environment are part
  of \<open>insertion\<close>.
\<close>

definition writeResultStream ::
  "(jsval list \<Rightarrow> js_error option) \<Rightarrow> jsval list \<Rightarrow> js_error + jsval list \<times> log_line list" where
  "writeResultStream insertion rows =
     and_then (prepare_rows rows) (\<lambda>preparedRows.
       Inr (preparedRows,
            (case insertion preparedRows of
               None \<Rightarrow> [Line ''Data saved'']
             | Some err \<Rightarrow> [Line ''BigQuery fail'', Json_of err])))"


section \<open>The synchronous endpoint (app.js, performAudit)\<close>

text \<open>
  The body of \<open>POST /audit\<close>, typed as section 6 of the specification gives it for the
  requests the validation layer (not among the sources) lets through: \<open>urls\<close> a list of
  strings, \<open>blockedRequests\<close> absent or a list of strings, \<open>mode\<close> absent or a string,
  \<open>storeData\<close> absent or a boolean. \<open>storeDate\<close> is the field the handler reads under
  that spelling: any value, \<open>JUndefined\<close> when absent.
\<close>

record payload =
  req_urls :: "string list"
  req_blockedRequests :: "string list option"
  req_mode :: "string option"
  req_storeData :: "bool option"
  req_storeDate :: jsval

text \<open>
  What the handler meets: the world of its \<open>k\<close>-th orchestrator run, the mapping of the
  configuration module (\<open>perfConfig.auditResultsMapping\<close>, not among the sources) and the
  outcome of the insertion into the store.
\<close>

record audit_env =
  runs :: "nat \<Rightarrow> world"
  auditResultsMapping :: "(string \<times> string) list"
  insert_outcome :: "jsval list \<Rightarrow> js_error option"

text \<open>The value of an optional string and of an optional boolean as the code holds it.\<close>

definition js_string :: "string option \<Rightarrow> jsval" where
  "js_string m = (case m of None \<Rightarrow> JUndefined | Some s \<Rightarrow> JStr s)"

definition js_bool :: "bool option \<Rightarrow> jsval" where
  "js_bool b = (case b of None \<Rightarrow> JUndefined | Some x \<Rightarrow> JBool x)"

text \<open>\<open>results.map(result => { result['mode'] = mode; return result; })\<close>\<close>

fun tag_mode :: "jsval \<Rightarrow> jsval list \<Rightarrow> js_error + jsval list" where
  "tag_mode m [] = Inr []"
| "tag_mode m (result # results) =
     (case set_prop result ''mode'' m of
        Inl e \<Rightarrow> Inl e
      | Inr tagged \<Rightarrow>
          (case tag_mode m results of
             Inl e \<Rightarrow> Inl e
           | Inr rest \<Rightarrow> Inr (tagged # rest)))"

definition performLightouseAudit ::
  "(type_fault \<Rightarrow> string) \<Rightarrow> world \<Rightarrow> (string \<times> string) list \<Rightarrow>
   string list \<Rightarrow> string list option \<Rightarrow> string option \<Rightarrow> js_error + jsval list" where
  "performLightouseAudit rt w mapping us blockedPatterns m =
     (let config = (if m = Some ''desktop'' then DesktopConfig
                    else if m = Some ''mobile'' then LrMobileConfig
                    else PerfConfig);
          blocked = (case blockedPatterns of None \<Rightarrow> [] | Some b \<Rightarrow> b);
          lhAudit = new_LighthouseAudit us (Some blocked) config mapping;
          ran = run rt w lhAudit
      in and_then (outcome ran) (\<lambda>raw.
         and_then (lh_getBQFormatResults (today w) (this_after ran)) (\<lambda>formatted.
           tag_mode (js_string m) formatted)))"

text \<open>
  The response of the handler and what it did to the store and the console: the status
  and the JSON body, the rows handed to the insertion (\<open>None\<close> when the store was not
  written) and the lines printed.
\<close>

datatype response_body = Records "jsval list" | Error_body nat string

record audit_response =
  status :: nat
  json :: response_body
  stored :: "jsval list option"
  console :: "log_line list"

definition error_response :: "(type_fault \<Rightarrow> string) \<Rightarrow> js_error \<Rightarrow> jsval list option \<Rightarrow> audit_response" where
  "error_response rt e written =
     \<lparr>status = 500, json = Error_body 500 (message rt e), stored = written, console = []\<rparr>"

text \<open>
  The handler. The \<open>switch\<close> compares the mode with \<open>all\<close>; its other cases fall
  through to the default.
\<close>

definition performAudit :: "(type_fault \<Rightarrow> string) \<Rightarrow> audit_env \<Rightarrow> payload \<Rightarrow> audit_response" where
  "performAudit rt env p =
     (let m = (if typeof (js_string (req_mode p)) \<noteq> ''string'' then req_mode p
               else Some ''mobile'');
          storeData = (if typeof (js_bool (req_storeData p)) \<noteq> ''boolean'' then req_storeDate p
                       else JBool False);
          audits =
            (if m = Some ''all'' then
               and_then (performLightouseAudit rt (runs env 0) (auditResultsMapping env)
                           (req_urls p) (req_blockedRequests p) (Some ''desktop'')) (\<lambda>desktop.
               and_then (performLightouseAudit rt (runs env 1) (auditResultsMapping env)
                           (req_urls p) (req_blockedRequests p) (Some ''mobile'')) (\<lambda>mobile.
                 Inr (([] @ desktop) @ mobile)))
             else performLightouseAudit rt (runs env 0) (auditResultsMapping env)
                    (req_urls p) (req_blockedRequests p) m)
      in case audits of
           Inl e \<Rightarrow> error_response rt e None
         | Inr results \<Rightarrow>
             (if truthy storeData then
                (case writeResultStream (insert_outcome env) results of
                   Inl e \<Rightarrow> error_response rt e None
                 | Inr (rows, printed) \<Rightarrow>
                     \<lparr>status = 200, json = Records results, stored = Some rows,
                      console = printed\<rparr>)
              else \<lparr>status = 200, json = Records results, stored = None, console = []\<rparr>))"


section \<open>Notions used in the statements\<close>

text \<open>A formatted record, as opposed to the \<open>undefined\<close> left for an undefined result.\<close>

definition is_record :: "jsval \<Rightarrow> bool" where
  "is_record v = (case v of JObj ps \<Rightarrow> True | _ \<Rightarrow> False)"



text \<open>Reading a chain of properties, as \<open>v.a.b.c\<close> does.\<close>

fun read_path :: "jsval \<Rightarrow> string list \<Rightarrow> js_error + jsval" where
  "read_path v [] = Inr v"
| "read_path v (p # ps) = (case get_prop v p of Inl e \<Rightarrow> Inl e | Inr x \<Rightarrow> read_path x ps)"


section \<open>Concrete inputs\<close>

text \<open>
  A queue on which every \<open>createTask\<close> succeeds and a clock that advances by one second
  between two readings.
\<close>

definition q0 :: queue_env where
  "q0 = \<lparr>queuePath = ''projects/p/locations/l/queues/q'', SERVICE_URL = ''https://svc'',
         createTask = (\<lambda>i r. Inr ''t''), now = (\<lambda>i. 1000 * i)\<rparr>"

text \<open>
  A runtime, a clock reading, a mapping with one raw key the backend reports and one it
  does not, a backend response, and a world in which every audit succeeds.
\<close>

definition rt0 :: "type_fault \<Rightarrow> string" where
  "rt0 f = (case f of ReadProp p v \<Rightarrow> ''Cannot read property '' @ p
                    | SetProp p v \<Rightarrow> ''Cannot set property '' @ p)"

definition stamps0 :: stamps where
  "stamps0 = \<lparr>bq_date = JObj [(''value'', JStr ''2021-03-01'')],
              bq_datetime = JObj [(''value'', JStr ''2021-03-01T10:20:30.456Z'')],
              bq_time = JObj [(''value'', JStr ''10:20:30.456'')]\<rparr>"

definition mapping0 :: "(string \<times> string) list" where
  "mapping0 = [(''firstContentfulPaint'', ''first-contentful-paint''),
               (''speedIndex'', ''speed-index'')]"

definition audits0 :: jsval where
  "audits0 = JObj [(''first-contentful-paint'',
                     JObj [(''numericValue'', JNum (1234 / 10)), (''score'', JNum (9 / 10))])]"

definition lhr0 :: jsval where
  "lhr0 = JObj [(''lhr'', JObj [(''audits'', audits0),
                  (''categories'', JObj [(''performance'', JObj [(''score'', JNum (95 / 100))])])])]"

definition world0 :: world where
  "world0 = \<lparr>launch_error = None,
             wsEndpoint = ''ws://127.0.0.1:9222/devtools/browser/x'',
             newPage = (\<lambda>i. None),
             lighthouse = (\<lambda>i u blocked port config. Inr lhr0),
             today = stamps0\<rparr>"

definition env0 :: audit_env where
  "env0 = \<lparr>runs = (\<lambda>k. world0), auditResultsMapping = mapping0, insert_outcome = (\<lambda>rows. None)\<rparr>"

definition urls2 :: "string list" where
  "urls2 = [''https://a.example'', ''https://b.example'']"

text \<open>
  A raw result as the orchestrator accumulates it, instances whose accumulated list
  holds \<open>undefined\<close>, and an instance whose mapping has the output field \<open>url\<close>.
\<close>

definition audit_a :: jsval where
  "audit_a = JObj [(''first-contentful-paint'',
                     JObj [(''numericValue'', JNum (1234 / 10)), (''score'', JNum (9 / 10))]),
                   (''url'', JStr ''https://a.example'')]"

definition lh_holes :: LighthouseAudit where
  "lh_holes = (new_LighthouseAudit [] None PerfConfig mapping0)\<lparr>auditResults := [JUndefined, audit_a]\<rparr>"



text \<open>A fresh instance of each class over the mapping.\<close>

definition lh0 :: LighthouseAudit where
  "lh0 = new_LighthouseAudit [] None PerfConfig mapping0"


text \<open>
  A world whose engine rejects the second audit, a batch of three URLs, the instance the
  handler builds for it, and the request.
\<close>

definition world_b :: world where
  "world_b = world0\<lparr>lighthouse :=
     (\<lambda>i u blocked port config. if i = 1 then Inl (Error ''timeout'') else Inr lhr0)\<rparr>"

definition urls3 :: "string list" where
  "urls3 = [''https://a.example'', ''https://b.example'', ''https://c.example'']"

definition lh_abc :: LighthouseAudit where
  "lh_abc = new_LighthouseAudit urls3 (Some []) PerfConfig mapping0"

definition env_b :: audit_env where
  "env_b = \<lparr>runs = (\<lambda>k. world_b), auditResultsMapping = mapping0, insert_outcome = (\<lambda>rows. None)\<rparr>"

definition request_abc :: payload where
  "request_abc = \<lparr>req_urls = urls3, req_blockedRequests = None, req_mode = None,
                   req_storeData = None, req_storeDate = JUndefined\<rparr>"

text \<open>
  The raw result of the engine once the runner has tagged it with the URL, and a fresh
  instance over two URLs.
\<close>

definition tagged :: "string \<Rightarrow> jsval" where
  "tagged u = JObj [(''first-contentful-paint'',
                     JObj [(''numericValue'', JNum (1234 / 10)), (''score'', JNum (9 / 10))]),
                    (''url'', JStr u)]"


text \<open>
  A response of each backend that has the performance category and no audit items.
\<close>

definition lhr_no_audits :: jsval where
  "lhr_no_audits =
     JObj [(''lhr'', JObj [(''categories'',
              JObj [(''performance'', JObj [(''score'', JNum (95 / 100))])])])]"

definition world_no_audits :: world where
  "world_no_audits = world0\<lparr>lighthouse := (\<lambda>i u blocked port config. Inr lhr_no_audits)\<rparr>"

definition psi_world_no_audits :: psi_world where
  "psi_world_no_audits =
     \<lparr>GOOGLE_INSIGHTS_KEY = None,
      psi = (\<lambda>u options. Inr (JObj [(''data'', JObj [(''lighthouseResult'',
               JObj [(''categories'',
                 JObj [(''performance'', JObj [(''score'', JNum (95 / 100))])])])])]))\<rparr>"

text \<open>
  The record the formatter and the handler produce for a URL and a mode in that world,
  three requests over the two URLs, and an environment whose store rejects every
  insertion.
\<close>

definition record_of :: "string \<Rightarrow> jsval \<Rightarrow> jsval" where
  "record_of u m =
     JObj [(''firstContentfulPaint'', JNum (1234 / 10)),
           (''firstContentfulPaint_score'', JNum (9 / 10)),
           (''speedIndex'', JNum 0), (''speedIndex_score'', JNum 0),
           (''performanceScore'', JNum (95 / 100)),
           (''date'', bq_date stamps0), (''datetime'', bq_datetime stamps0),
           (''time'', bq_time stamps0), (''url'', JStr u),
           (''blockedRequests'', JStr []), (''mode'', m)]"

definition request_all :: payload where
  "request_all = \<lparr>req_urls = urls2, req_blockedRequests = None, req_mode = Some ''all'',
                   req_storeData = None, req_storeDate = JUndefined\<rparr>"

definition request_storeData :: payload where
  "request_storeData = \<lparr>req_urls = urls2, req_blockedRequests = None, req_mode = Some ''mobile'',
                         req_storeData = Some True, req_storeDate = JUndefined\<rparr>"

definition request_storeDate :: payload where
  "request_storeDate = \<lparr>req_urls = urls2, req_blockedRequests = None, req_mode = Some ''mobile'',
                         req_storeData = None, req_storeDate = JBool True\<rparr>"

definition env_quota :: audit_env where
  "env_quota = env0\<lparr>insert_outcome := (\<lambda>rows. Some (Error ''quota exceeded''))\<rparr>"


section \<open>Properties of the values\<close>

lemma typeof_undefined [simp]: "typeof v = ''undefined'' \<longleftrightarrow> v = JUndefined"
  by (cases v) simp_all

lemma js_string_simps [simp]: "js_string None = JUndefined" "js_string (Some s) = JStr s"
  by (simp_all add: js_string_def)

lemma js_bool_simps [simp]: "js_bool None = JUndefined" "js_bool (Some x) = JBool x"
  by (simp_all add: js_bool_def)

lemma mode_line [simp]:
  "(if typeof (js_string m) \<noteq> ''string'' then m else Some ''mobile'') =
     (case m of None \<Rightarrow> None | Some s \<Rightarrow> Some ''mobile'')"
  by (cases m) simp_all

lemma storeData_line [simp]:
  "(if typeof (js_bool b) \<noteq> ''boolean'' then x else JBool False) =
     (case b of None \<Rightarrow> x | Some y \<Rightarrow> JBool False)"
  by (cases b) simp_all


section \<open>Properties of the Chunk Scheduler\<close>

lemma ceil_step:
  assumes C: "0 < C" and n: "0 < (n::nat)"
  shows "(n + C - 1) div C = Suc ((n - C + C - 1) div C)"
proof -
  have step: "(m + C) div C = Suc (m div C)" for m using C by simp
  show ?thesis
  proof (cases "C \<le> n")
  case True
  have "n + C - 1 = (n - C + C - 1) + C" using True C by linarith
  then have "(n + C - 1) div C = ((n - C + C - 1) + C) div C" by (rule arg_cong)
  also have "\<dots> = Suc ((n - C + C - 1) div C)" by (rule step)
  finally show ?thesis .
next
  case False
  have a: "n - C + C - 1 = C - 1" using False by linarith
  have b: "n + C - 1 = (n - 1) + C" using n by linarith
  have c: "(n - 1) div C = 0" using False n by (intro div_less) linarith
  have d: "(C - 1) div C = 0" using C by (intro div_less) linarith
  have "(n + C - 1) div C = ((n - 1) + C) div C" using b by (rule arg_cong)
  also have "\<dots> = Suc ((n - 1) div C)" by (rule step)
  finally show ?thesis by (simp only: a c d)
  qed
qed


lemma chunks_len: "0 < C \<Longrightarrow> length (getChunkedList xs C) = (length xs + C - 1) div C"
proof (induction xs C rule: getChunkedList.induct)
  case (1 list chunkSize)
  show ?case
  proof (cases "list = []")
    case True
    then show ?thesis using 1(2) by (simp add: getChunkedList.simps)
  next
    case False
    have "length (getChunkedList list chunkSize) = Suc (length (getChunkedList (drop chunkSize list) chunkSize))"
      using False 1(2) by (subst getChunkedList.simps) simp
    also have "\<dots> = Suc ((length list - chunkSize + chunkSize - 1) div chunkSize)"
      using 1 False by simp
    also have "\<dots> = (length list + chunkSize - 1) div chunkSize"
      using ceil_step [of chunkSize "length list"] False 1(2) by simp
    finally show ?thesis .
  qed
qed

lemma schedule_loop_submitted:
  "\<exists>m \<le> length chunks.
     submitted (schedule_loop q blocked i s chunks sent cts) =
       sent @ map (\<lambda>k. build_task q blocked (i + k) (s + 10 * k) (chunks ! k)) [0..<m]
   \<and> (\<forall>r. response (schedule_loop q blocked i s chunks sent cts) = Inr r \<longrightarrow>
          m = length chunks \<and> map snd r = map snd cts @ chunks)"
proof (induction chunks arbitrary: i s sent cts)
  case Nil
  show ?case by simp
next
  case (Cons chunk chunks)
  let ?req = "build_task q blocked i s chunk"
  show ?case
  proof (cases "createTask q i ?req")
    case (Inl e)
    have "submitted (schedule_loop q blocked i s (chunk # chunks) sent cts) =
            sent @ map (\<lambda>k. build_task q blocked (i + k) (s + 10 * k) ((chunk # chunks) ! k)) [0..<Suc 0]"
      using Inl by simp
    moreover have "\<forall>r. response (schedule_loop q blocked i s (chunk # chunks) sent cts) \<noteq> Inr r"
      using Inl by simp
    ultimately show ?thesis
      by (intro exI [of _ "Suc 0"]) simp
  next
    case (Inr nm)
    from Cons.IH [of "Suc i" "s + 10" "sent @ [?req]" "cts @ [(nm, chunk)]"]
    obtain m where m: "m \<le> length chunks"
      and sub: "submitted (schedule_loop q blocked (Suc i) (s + 10) chunks (sent @ [?req]) (cts @ [(nm, chunk)])) =
        (sent @ [?req]) @ map (\<lambda>k. build_task q blocked (Suc i + k) (s + 10 + 10 * k) (chunks ! k)) [0..<m]"
      and resp: "\<forall>r. response (schedule_loop q blocked (Suc i) (s + 10) chunks (sent @ [?req]) (cts @ [(nm, chunk)])) = Inr r \<longrightarrow>
          m = length chunks \<and> map snd r = map snd (cts @ [(nm, chunk)]) @ chunks"
      by blast
    have unfold: "schedule_loop q blocked i s (chunk # chunks) sent cts =
        schedule_loop q blocked (Suc i) (s + 10) chunks (sent @ [?req]) (cts @ [(nm, chunk)])"
      using Inr by simp
    have shift: "map (\<lambda>k. build_task q blocked (i + k) (s + 10 * k) ((chunk # chunks) ! k)) [0..<Suc m] =
        ?req # map (\<lambda>k. build_task q blocked (Suc i + k) (s + 10 + 10 * k) (chunks ! k)) [0..<m]"
      by (simp only: upt_conv_Cons [of 0 "Suc m"] map_Suc_upt [symmetric]) (simp add: comp_def add.assoc)
    show ?thesis
      apply (rule exI [of _ "Suc m"])
      apply (simp only: unfold shift sub)
      using m resp by simp
  qed
qed

lemma chunks_concat: "0 < C \<Longrightarrow> concat (getChunkedList xs C) = xs"
  by (induction xs C rule: getChunkedList.induct) (subst getChunkedList.simps, simp)

lemma chunks_size: "0 < C \<Longrightarrow> list_all (\<lambda>c. length c \<le> C) (getChunkedList xs C)"
  by (induction xs C rule: getChunkedList.induct) (subst getChunkedList.simps, simp)

lemma chunks_Suc_0: "getChunkedList xs (Suc 0) = map (\<lambda>u. [u]) xs"
proof (induction xs)
  case Nil
  show ?case by (subst getChunkedList.simps) simp
next
  case (Cons x xs)
  then show ?case by (subst getChunkedList.simps) simp
qed

lemma ceil_div:
  assumes C: "0 < C"
  shows "int ((n + C - 1) div C) = \<lceil>rat_of_nat n / rat_of_nat C\<rceil>"
proof -
  define k where "k = (n + C - 1) div C"
  have 1: "k * C \<le> n + C - 1" unfolding k_def by simp
  have 2: "n + C - 1 < k * C + C" unfolding k_def using C
    by (metis dividend_less_div_times mult.commute add.commute)
  have up: "n \<le> k * C" using 2 C by linarith
  have lo: "k * C < n + C" using 1 C by linarith
  have cpos: "0 < rat_of_nat C" using C by simp
  have "rat_of_nat n \<le> rat_of_nat (k * C)" using up by (simp only: of_nat_le_iff)
  then have a: "rat_of_nat n / rat_of_nat C \<le> rat_of_nat k"
    using cpos by (simp add: divide_le_eq)
  have "rat_of_nat (k * C) < rat_of_nat (n + C)" using lo by (simp only: of_nat_less_iff)
  then have "(rat_of_nat k - 1) * rat_of_nat C < rat_of_nat n"
    by (simp add: algebra_simps)
  then have b: "rat_of_nat k - 1 < rat_of_nat n / rat_of_nat C"
    using cpos by (simp add: less_divide_eq)
  have "\<lceil>rat_of_nat n / rat_of_nat C\<rceil> = int k"
    by (rule ceiling_unique) (use a b in simp_all)
  then show ?thesis by (simp add: k_def)
qed


lemma scheduleAudits_submitted:
  "\<exists>m \<le> length list.
     submitted (scheduleAudits q list b) =
       map (\<lambda>k. build_task q (case b of None \<Rightarrow> [] | Some x \<Rightarrow> x) k (10 + 10 * k) [list ! k]) [0..<m]"
proof -
  let ?bl = "case b of None \<Rightarrow> [] | Some x \<Rightarrow> x"
  from schedule_loop_submitted [of "getChunkedList list 1" q ?bl 0 10 "[]" "[]"]
  obtain m where m: "m \<le> length (getChunkedList list 1)"
    and sub: "submitted (schedule_loop q ?bl 0 10 (getChunkedList list 1) [] []) =
       [] @ map (\<lambda>k. build_task q ?bl (0 + k) (10 + 10 * k) (getChunkedList list 1 ! k)) [0..<m]"
    by blast
  have "m \<le> length list" using m by (simp add: chunks_Suc_0)
  moreover have "submitted (scheduleAudits q list b) =
       map (\<lambda>k. build_task q ?bl k (10 + 10 * k) [list ! k]) [0..<m]"
    using sub m by (simp add: scheduleAudits_def chunks_Suc_0)
  ultimately show ?thesis by blast
qed

text \<open>
  C6. For a URL list of length \<open>N\<close> and a chunk size \<open>C > 0\<close>, the chunk list has
  \<open>ceil(N/C)\<close> chunks, each of at most \<open>C\<close> elements, and concatenating the chunks in
  order gives the original list back. The scheduler calls it with \<open>C = 1\<close>: the bodies of
  the tasks it submits are, in order, the chunks of \<open>getChunkedList list 1\<close> (all of
  them, unless a \<open>createTask\<close> call rejects and stops the loop).
\<close>

theorem getChunkedList_partition:
  assumes "0 < C"
  shows "int (length (getChunkedList list C)) = \<lceil>rat_of_nat (length list) / rat_of_nat C\<rceil>
       \<and> list_all (\<lambda>chunk. length chunk \<le> C) (getChunkedList list C)
       \<and> concat (getChunkedList list C) = list
       \<and> map (body \<circ> task) (submitted (scheduleAudits q list b)) =
           take (length (submitted (scheduleAudits q list b)))
             (map (\<lambda>chunk. Base64_JSON chunk (case b of None \<Rightarrow> [] | Some x \<Rightarrow> x))
               (getChunkedList list 1))"
proof -
  let ?bl = "case b of None \<Rightarrow> [] | Some x \<Rightarrow> x"
  have count: "int (length (getChunkedList list C)) = \<lceil>rat_of_nat (length list) / rat_of_nat C\<rceil>"
    using assms by (simp only: chunks_len ceil_div)
  obtain m where m: "m \<le> length list"
    and sub: "submitted (scheduleAudits q list b) =
       map (\<lambda>k. build_task q ?bl k (10 + 10 * k) [list ! k]) [0..<m]"
    using scheduleAudits_submitted by blast
  have bodies: "map (body \<circ> task) (submitted (scheduleAudits q list b)) =
           take (length (submitted (scheduleAudits q list b)))
             (map (\<lambda>chunk. Base64_JSON chunk ?bl) (getChunkedList list 1))"
  proof (rule nth_equalityI)
    show "length (map (body \<circ> task) (submitted (scheduleAudits q list b))) =
      length (take (length (submitted (scheduleAudits q list b)))
             (map (\<lambda>chunk. Base64_JSON chunk ?bl) (getChunkedList list 1)))"
      using m by (simp add: sub chunks_Suc_0)
  next
    fix i
    assume "i < length (map (body \<circ> task) (submitted (scheduleAudits q list b)))"
    then have "i < m" by (simp add: sub)
    then show "map (body \<circ> task) (submitted (scheduleAudits q list b)) ! i =
      take (length (submitted (scheduleAudits q list b)))
             (map (\<lambda>chunk. Base64_JSON chunk ?bl) (getChunkedList list 1)) ! i"
      using m by (simp add: sub chunks_Suc_0 build_task_def)
  qed
  show ?thesis
    using count chunks_size [OF assms] chunks_concat [OF assms] bodies by blast
qed

theorem getChunkedList_partition_witness:
  "(0::nat) < 2
   \<and> getChunkedList [''https://a.example'', ''https://b.example'', ''https://c.example''] 2 =
       [[''https://a.example'', ''https://b.example''], [''https://c.example'']]
   \<and> int (length (getChunkedList [''https://a.example'', ''https://b.example'', ''https://c.example''] 2)) = 2
   \<and> concat (getChunkedList [''https://a.example'', ''https://b.example'', ''https://c.example''] 2) =
       [''https://a.example'', ''https://b.example'', ''https://c.example'']"
proof -
  have ev: "getChunkedList [''https://a.example'', ''https://b.example'', ''https://c.example''] 2 =
       [[''https://a.example'', ''https://b.example''], [''https://c.example'']]"
    by code_simp
  have pos: "(0::nat) < 2" by simp
  from getChunkedList_partition [OF pos, of "[''https://a.example'', ''https://b.example'', ''https://c.example'']" q0 None]
  show ?thesis by (simp add: ev)
qed





section \<open>Properties of the Orchestrator loop\<close>

lemma and_then_Inl [simp]: "and_then (Inl e) f = Inl e"
  by (simp add: and_then_def)

lemma and_then_Inr [simp]: "and_then (Inr x) f = f x"
  by (simp add: and_then_def)

lemma and_then_eq_Inr:
  "and_then m f = Inr y \<longleftrightarrow> (\<exists>x. m = Inr x \<and> f x = Inr y)"
  by (cases m) simp_all

lemma and_then_eq_Inl:
  "and_then m f = Inl e \<longleftrightarrow> m = Inl e \<or> (\<exists>x. m = Inr x \<and> f x = Inl e)"
  by (cases m) simp_all

lemma set_prop_Inr: "set_prop v p x = Inr r \<Longrightarrow> \<exists>ps. v = JObj ps \<and> r = JObj (AList.update p x ps)"
  by (cases v) simp_all




lemma try_audit_pushes [simp]:
  "try_audit rt w (this\<lparr>performanceScore := a, auditResults := b\<rparr>) i u = try_audit rt w this i u"
  by (simp add: try_audit_def lh_performAudit_def)



lemma run_loop_failure:
  "j < length us \<Longrightarrow>
   (\<forall>k<j. \<exists>r. try_audit rt w this (i + k) (us ! k) = Inr r) \<Longrightarrow>
   try_audit rt w this (i + j) (us ! j) = Inl e \<Longrightarrow>
     outcome (run_loop rt w i us this seen) = Inl (Error (message rt e @ '' on '' @ us ! j))
   \<and> visited (run_loop rt w i us this seen) = seen @ take (Suc j) us
   \<and> length (auditResults (this_after (run_loop rt w i us this seen))) = length (auditResults this) + j"
proof (induction us arbitrary: i j this seen)
  case Nil
  then show ?case by simp
next
  case (Cons u us)
  show ?case
  proof (cases j)
    case 0
    then show ?thesis using Cons.prems by simp
  next
    case (Suc j')
    from Cons.prems(2) Suc have "\<exists>r. try_audit rt w this (i + 0) ((u # us) ! 0) = Inr r"
      by blast
    then obtain performance metrics where
      ok: "try_audit rt w this i u = Inr (performance, metrics)" by auto
    let ?pushed = "this\<lparr>performanceScore := performanceScore this @ [performance],
                  auditResults := auditResults this @ [metrics]\<rparr>"
    have step: "run_loop rt w i (u # us) this seen = run_loop rt w (Suc i) us ?pushed (seen @ [u])"
      using ok by simp
    have j': "j' < length us" using Cons.prems(1) Suc by simp
    have before: "\<forall>k<j'. \<exists>r. try_audit rt w ?pushed (Suc i + k) (us ! k) = Inr r"
    proof (intro allI impI)
      fix k assume "k < j'"
      then have "Suc k < j" using Suc by simp
      with Cons.prems(2) have "\<exists>r. try_audit rt w this (i + Suc k) ((u # us) ! Suc k) = Inr r"
        by blast
      then show "\<exists>r. try_audit rt w ?pushed (Suc i + k) (us ! k) = Inr r" by simp
    qed
    have fails: "try_audit rt w ?pushed (Suc i + j') (us ! j') = Inl e"
      using Cons.prems(3) Suc by simp
    from Cons.IH [OF j' before fails, of "seen @ [u]"]
    show ?thesis using Suc by (simp add: step del: run_loop.simps)
  qed
qed


section \<open>Properties of the Result Formatter\<close>

lemma get_prop_defined: "v \<noteq> JUndefined \<Longrightarrow> v \<noteq> JNull \<Longrightarrow> \<exists>x. get_prop v p = Inr x"
  by (cases v) simp_all

lemma truthy_defined: "truthy v \<Longrightarrow> v \<noteq> JUndefined \<and> v \<noteq> JNull"
  by (cases v) simp_all

lemma get_prop_JObj: "get_prop (JObj ps) p = Inr x \<longleftrightarrow> x = (case map_of ps p of None \<Rightarrow> JUndefined | Some v \<Rightarrow> v)"
  by auto

lemma field_values_defined:
  assumes "audit \<noteq> JUndefined" "audit \<noteq> JNull"
  shows "\<exists>item nv sc. get_prop audit rawKey = Inr item
           \<and> (if truthy item then get_prop item ''numericValue'' else Inr (JNum 0)) = Inr nv
           \<and> (if truthy item then get_prop item ''score'' else Inr (JNum 0)) = Inr sc
           \<and> field_values audit rawKey = Inr (nv, sc)"
proof -
  obtain item where item: "get_prop audit rawKey = Inr item"
    using get_prop_defined [OF assms] by blast
  show ?thesis
  proof (cases "truthy item")
    case True
    then obtain nv sc where "get_prop item ''numericValue'' = Inr nv" "get_prop item ''score'' = Inr sc"
      using get_prop_defined truthy_defined by metis
    then show ?thesis using item True by (simp add: field_values_def)
  next
    case False
    then show ?thesis using item by (simp add: field_values_def)
  qed
qed

lemma reduce_fields_defined:
  assumes "audit \<noteq> JUndefined" "audit \<noteq> JNull"
  shows "\<exists>res'. reduce_fields mapping audit res = Inr res'"
proof (induction mapping arbitrary: res)
  case Nil
  show ?case by simp
next
  case (Cons keyVal rest)
  obtain nv sc where "field_values audit (snd keyVal) = Inr (nv, sc)"
    using field_values_defined [OF assms] by blast
  then show ?case using Cons.IH by simp
qed





lemma stamp_fields_defined:
  "audit \<noteq> JUndefined \<Longrightarrow> audit \<noteq> JNull \<Longrightarrow> \<exists>stamped. stamp_fields T scores it audit res = Inr stamped"
  using get_prop_defined [of audit "''url''"] by (auto simp: stamp_fields_def)


lemma psi_format_audit_defined:
  assumes "audit \<noteq> JUndefined" "audit \<noteq> JNull"
  shows "\<exists>ps. psi_format_audit T this it audit = Inr (JObj ps)"
proof -
  obtain res where res: "reduce_fields (auditFieldMapping this) audit [] = Inr res"
    using reduce_fields_defined [OF assms] by blast
  obtain stamped where "stamp_fields T (performanceScore this) it audit res = Inr stamped"
    using stamp_fields_defined [OF assms] by blast
  then show ?thesis using res by (simp add: psi_format_audit_def)
qed



lemma is_record_simps [simp]:
  "is_record (JObj ps)" "\<not> is_record JUndefined" "\<not> is_record JNull"
  by (simp_all add: is_record_def)



lemma lh_holes_formatted:
  "lh_getBQFormatResults stamps0 lh_holes =
     Inr [JUndefined,
          JObj [(''firstContentfulPaint'', JNum (1234 / 10)),
                (''firstContentfulPaint_score'', JNum (9 / 10)),
                (''speedIndex'', JNum 0), (''speedIndex_score'', JNum 0),
                (''performanceScore'', JUndefined),
                (''date'', bq_date stamps0), (''datetime'', bq_datetime stamps0),
                (''time'', bq_time stamps0), (''url'', JStr ''https://a.example''),
                (''blockedRequests'', JStr [])]]"
  by (simp add: lh_getBQFormatResults_def lh_holes_def new_LighthouseAudit_def lh_format_audit_def
      mapping0_def audit_a_def field_values_def stamp_fields_def at_index_def)







section \<open>Properties of the Orchestrator and the synchronous endpoint\<close>

lemma run_failure:
  assumes launch: "launch_error w = None"
    and j: "j < length (urls this)"
    and before: "\<forall>i<j. \<exists>r. try_audit rt w this i (urls this ! i) = Inr r"
    and fails: "try_audit rt w this j (urls this ! j) = Inl e"
  shows "outcome (run rt w this) = Inl (Error (message rt e @ '' on '' @ urls this ! j))
       \<and> visited (run rt w this) = take (Suc j) (urls this)
       \<and> length (auditResults (this_after (run rt w this))) = length (auditResults this) + j"
proof -
  have run: "run rt w this = run_loop rt w 0 (urls this) this []"
    using launch by (simp add: run_def)
  from before have b: "\<forall>k<j. \<exists>r. try_audit rt w this (0 + k) (urls this ! k) = Inr r" by simp
  from fails have f: "try_audit rt w this (0 + j) (urls this ! j) = Inl e" by simp
  from run_loop_failure [OF j b f, of "[]"] show ?thesis by (simp only: run append_Nil)
qed

lemma try_audit_backend_message:
  assumes "try_audit rt w this i u = Inl e"
    and "newPage w i = None"
    and "debugging_port (wsEndpoint w) = Inr port"
    and "lighthouse w i u (blockedRequestPatterns this) port (auditConfig this) = Inl b"
  shows "e = Error (''LH Audit error: '' @ message rt b)"
  using assms by (simp add: try_audit_def lh_performAudit_def)

lemma performAudit_run_failure:
  assumes "outcome (run rt (runs env 0)
      (new_LighthouseAudit (req_urls p)
         (Some (case req_blockedRequests p of None \<Rightarrow> [] | Some b \<Rightarrow> b))
         (case req_mode p of None \<Rightarrow> PerfConfig | Some s \<Rightarrow> LrMobileConfig)
         (auditResultsMapping env))) = Inl err"
  shows "performAudit rt env p =
     \<lparr>status = 500, json = Error_body 500 (message rt err), stored = None, console = []\<rparr>"
proof (cases "req_mode p")
  case None
  then show ?thesis using assms
    by (simp add: performAudit_def performLightouseAudit_def Let_def error_response_def)
next
  case (Some s)
  then show ?thesis using assms
    by (simp add: performAudit_def performLightouseAudit_def Let_def error_response_def)
qed

text \<open>
  C3. Let the browser launch, let the audits of the URLs before index \<open>j\<close> succeed and
  let the audit of the URL at index \<open>j\<close> fail with the error \<open>e\<close> (the error the
  \<open>catch\<close> of the loop receives). Then \<open>run\<close> throws an error whose message is the
  message of \<open>e\<close> followed by \<open>on\<close> and the failing URL; the loop has visited the URLs
  up to index \<open>j\<close> and none after it; the \<open>j\<close> earlier results stay in the instance
  and are not returned. When it is the engine that rejected, with the error \<open>b\<close>, the
  message of \<open>e\<close> is the message of \<open>b\<close> behind the runner's prefix. The handler,
  whose orchestrator instance this is, answers with status 500 and that message, and no
  result list.
\<close>

theorem run_all_or_nothing:
  assumes launch: "launch_error w = None"
    and j: "j < length (urls this)"
    and before: "\<forall>i<j. \<exists>r. try_audit rt w this i (urls this ! i) = Inr r"
    and fails: "try_audit rt w this j (urls this ! j) = Inl e"
  shows "outcome (run rt w this) = Inl (Error (message rt e @ '' on '' @ urls this ! j))
       \<and> visited (run rt w this) = take (Suc j) (urls this)
       \<and> length (auditResults (this_after (run rt w this))) = length (auditResults this) + j
       \<and> (\<forall>port b. newPage w j = None \<and> debugging_port (wsEndpoint w) = Inr port
            \<and> lighthouse w j (urls this ! j) (blockedRequestPatterns this) port (auditConfig this) = Inl b
            \<longrightarrow> e = Error (''LH Audit error: '' @ message rt b))
       \<and> (\<forall>env p. runs env 0 = w
            \<and> this = new_LighthouseAudit (req_urls p)
                 (Some (case req_blockedRequests p of None \<Rightarrow> [] | Some b \<Rightarrow> b))
                 (case req_mode p of None \<Rightarrow> PerfConfig | Some s \<Rightarrow> LrMobileConfig)
                 (auditResultsMapping env)
            \<longrightarrow> performAudit rt env p =
                 \<lparr>status = 500,
                  json = Error_body 500 (message rt e @ '' on '' @ urls this ! j),
                  stored = None, console = []\<rparr>)"
proof -
  note r = run_failure [OF launch j before fails]
  have out: "outcome (run rt w this) = Inl (Error (message rt e @ '' on '' @ urls this ! j))"
    using r by (rule conjunct1)
  have msg: "\<forall>port b. newPage w j = None \<and> debugging_port (wsEndpoint w) = Inr port
            \<and> lighthouse w j (urls this ! j) (blockedRequestPatterns this) port (auditConfig this) = Inl b
            \<longrightarrow> e = Error (''LH Audit error: '' @ message rt b)"
    using try_audit_backend_message [OF fails] by blast
  have handler: "\<forall>env p. runs env 0 = w
            \<and> this = new_LighthouseAudit (req_urls p)
                 (Some (case req_blockedRequests p of None \<Rightarrow> [] | Some b \<Rightarrow> b))
                 (case req_mode p of None \<Rightarrow> PerfConfig | Some s \<Rightarrow> LrMobileConfig)
                 (auditResultsMapping env)
            \<longrightarrow> performAudit rt env p =
                 \<lparr>status = 500,
                  json = Error_body 500 (message rt e @ '' on '' @ urls this ! j),
                  stored = None, console = []\<rparr>"
  proof (intro allI impI)
    fix env :: audit_env and p :: payload
    assume a: "runs env 0 = w
            \<and> this = new_LighthouseAudit (req_urls p)
                 (Some (case req_blockedRequests p of None \<Rightarrow> [] | Some b \<Rightarrow> b))
                 (case req_mode p of None \<Rightarrow> PerfConfig | Some s \<Rightarrow> LrMobileConfig)
                 (auditResultsMapping env)"
    then have "outcome (run rt (runs env 0)
      (new_LighthouseAudit (req_urls p)
         (Some (case req_blockedRequests p of None \<Rightarrow> [] | Some b \<Rightarrow> b))
         (case req_mode p of None \<Rightarrow> PerfConfig | Some s \<Rightarrow> LrMobileConfig)
         (auditResultsMapping env))) = Inl (Error (message rt e @ '' on '' @ urls this ! j))"
      using out by simp
    then show "performAudit rt env p =
                 \<lparr>status = 500,
                  json = Error_body 500 (message rt e @ '' on '' @ urls this ! j),
                  stored = None, console = []\<rparr>"
      using performAudit_run_failure [of rt env p] by simp
  qed
  show ?thesis using r msg handler by blast
qed

lemma port0: "debugging_port (wsEndpoint world0) = Inr (JStr ''9222'')"
  by (simp add: debugging_port_def world0_def)

lemma world_b_fields:
  "launch_error world_b = None" "wsEndpoint world_b = wsEndpoint world0"
  "newPage world_b i = None"
  "lighthouse world_b i u bl port cfg = (if i = 1 then Inl (Error ''timeout'') else Inr lhr0)"
  by (simp_all add: world_b_def world0_def)

lemma lh_then_lhr0:
  "lh_then u lhr0 =
     Inr (JObj [(''metrics'', JObj [(''first-contentful-paint'',
                  JObj [(''numericValue'', JNum (1234 / 10)), (''score'', JNum (9 / 10))]),
                  (''url'', JStr u)]),
                (''performance'', JNum (95 / 100))])"
  by (simp add: lh_then_def lhr0_def audits0_def)

theorem run_all_or_nothing_witness:
  "launch_error world_b = None
   \<and> (1::nat) < length (urls lh_abc)
   \<and> try_audit rt0 world_b lh_abc 1 (urls lh_abc ! 1) = Inl (Error ''LH Audit error: timeout'')
   \<and> outcome (run rt0 world_b lh_abc) = Inl (Error ''LH Audit error: timeout on https://b.example'')
   \<and> visited (run rt0 world_b lh_abc) = [''https://a.example'', ''https://b.example'']
   \<and> performAudit rt0 env_b request_abc =
       \<lparr>status = 500, json = Error_body 500 ''LH Audit error: timeout on https://b.example'',
        stored = None, console = []\<rparr>"
proof -
  have u: "urls lh_abc = urls3" by (simp add: lh_abc_def new_LighthouseAudit_def)
  have l: "launch_error world_b = None" by (rule world_b_fields)
  have j: "(1::nat) < length (urls lh_abc)" by (simp add: u urls3_def)
  have t0: "\<exists>r. try_audit rt0 world_b lh_abc 0 (urls lh_abc ! 0) = Inr r"
    by (simp add: try_audit_def lh_performAudit_def world_b_fields port0 lh_then_lhr0)
  have before: "\<forall>i<1. \<exists>r. try_audit rt0 world_b lh_abc i (urls lh_abc ! i) = Inr r"
    using t0 by simp
  have fails: "try_audit rt0 world_b lh_abc 1 (urls lh_abc ! 1) = Inl (Error ''LH Audit error: timeout'')"
    by (simp add: try_audit_def lh_performAudit_def world_b_fields port0)
  have inst: "runs env_b 0 = world_b
            \<and> lh_abc = new_LighthouseAudit (req_urls request_abc)
                 (Some (case req_blockedRequests request_abc of None \<Rightarrow> [] | Some b \<Rightarrow> b))
                 (case req_mode request_abc of None \<Rightarrow> PerfConfig | Some s \<Rightarrow> LrMobileConfig)
                 (auditResultsMapping env_b)"
    by (simp add: env_b_def lh_abc_def request_abc_def)
  note main = run_all_or_nothing [OF l j before fails]
  have out: "outcome (run rt0 world_b lh_abc) = Inl (Error ''LH Audit error: timeout on https://b.example'')"
    using main by (simp add: u urls3_def)
  have vis: "visited (run rt0 world_b lh_abc) = [''https://a.example'', ''https://b.example'']"
    using main by (simp add: u urls3_def)
  from main inst have "performAudit rt0 env_b request_abc =
       \<lparr>status = 500,
        json = Error_body 500 (message rt0 (Error ''LH Audit error: timeout'') @ '' on '' @ urls lh_abc ! 1),
        stored = None, console = []\<rparr>"
    by blast
  then have resp: "performAudit rt0 env_b request_abc =
       \<lparr>status = 500, json = Error_body 500 ''LH Audit error: timeout on https://b.example'',
        stored = None, console = []\<rparr>"
    by (simp add: u urls3_def)
  show ?thesis using l j fails out vis resp by blast
qed




lemma world0_fields:
  "launch_error world0 = None" "newPage world0 i = None"
  "lighthouse world0 i u bl port cfg = Inr lhr0" "today world0 = stamps0"
  by (simp_all add: world0_def)

lemma try_audit_world0:
  "try_audit rt0 world0 this i u = Inr (JNum (95 / 100), tagged u)"
  by (simp add: try_audit_def lh_performAudit_def port0 world0_fields lh_then_lhr0 tagged_def)



section \<open>Properties of the Single-URL Audit Runner\<close>

lemma lh_then_paths:
  "lh_then u metrics =
     and_then (read_path metrics [''lhr'', ''audits'']) (\<lambda>audits.
     and_then (read_path metrics [''lhr'', ''categories'', ''performance'', ''score'']) (\<lambda>performance.
       if audits \<noteq> JUndefined \<and> audits \<noteq> JNull then
         and_then (set_prop audits ''url'' (JStr u)) (\<lambda>tagged.
           Inr (JObj [(''metrics'', tagged), (''performance'', performance)]))
       else Inr JUndefined))"
  by (simp add: lh_then_def and_then_def split: sum.splits)

lemma psi_then_paths:
  "psi_then u metrics =
     and_then (read_path metrics [''data'', ''lighthouseResult'', ''audits'']) (\<lambda>audits.
     and_then (read_path metrics [''data'', ''lighthouseResult'', ''categories'', ''performance'', ''score''])
       (\<lambda>performance.
       if audits \<noteq> JUndefined \<and> audits \<noteq> JNull then
         and_then (set_prop audits ''url'' (JStr u)) (\<lambda>tagged.
           Inr (JObj [(''metrics'', tagged), (''performance'', performance)]))
       else Inr JUndefined))"
  by (simp add: psi_then_def and_then_def split: sum.splits)

lemma lh_performAudit_port:
  "debugging_port (wsEndpoint w) = Inr port \<Longrightarrow>
   lh_performAudit rt w this i u bl =
     (case and_then (lighthouse w i u bl port (auditConfig this)) (lh_then u) of
        Inl e \<Rightarrow> Inl (Error (''LH Audit error: '' @ message rt e))
      | Inr result \<Rightarrow> Inr result)"
  by (simp add: lh_performAudit_def)


lemma runner_outcomes:
  assumes k: "\<And>metrics. k metrics =
     and_then (read_path metrics pa) (\<lambda>audits.
     and_then (read_path metrics pp) (\<lambda>performance.
       if audits \<noteq> JUndefined \<and> audits \<noteq> JNull then
         and_then (set_prop audits ''url'' (JStr u)) (\<lambda>tagged.
           Inr (JObj [(''metrics'', tagged), (''performance'', performance)]))
       else Inr JUndefined))"
    and r: "result = (case and_then resp k of
        Inl e \<Rightarrow> Inl (Error (pre @ message rt e))
      | Inr x \<Rightarrow> Inr x)"
  shows "(\<forall>b. resp = Inl b \<longrightarrow> result = Inl (Error (pre @ message rt b)))
       \<and> (\<forall>metrics e. resp = Inr metrics \<and> read_path metrics pa = Inl e
            \<longrightarrow> result = Inl (Error (pre @ message rt e)))
       \<and> (\<forall>metrics a e. resp = Inr metrics \<and> read_path metrics pa = Inr a
              \<and> read_path metrics pp = Inl e
            \<longrightarrow> result = Inl (Error (pre @ message rt e)))
       \<and> (\<forall>metrics a s. resp = Inr metrics \<and> read_path metrics pa = Inr a
              \<and> (a = JUndefined \<or> a = JNull) \<and> read_path metrics pp = Inr s
            \<longrightarrow> result = Inr JUndefined)
       \<and> (\<forall>metrics ps s. resp = Inr metrics \<and> read_path metrics pa = Inr (JObj ps)
              \<and> read_path metrics pp = Inr s
            \<longrightarrow> result = Inr (JObj [(''metrics'', JObj (AList.update ''url'' (JStr u) ps)),
                                    (''performance'', s)]))"
proof (intro conjI allI impI)
  fix b assume "resp = Inl b"
  then show "result = Inl (Error (pre @ message rt b))" by (simp add: r)
next
  fix metrics e assume "resp = Inr metrics \<and> read_path metrics pa = Inl e"
  then show "result = Inl (Error (pre @ message rt e))" by (simp add: r k)
next
  fix metrics a e
  assume "resp = Inr metrics \<and> read_path metrics pa = Inr a \<and> read_path metrics pp = Inl e"
  then show "result = Inl (Error (pre @ message rt e))" by (simp add: r k)
next
  fix metrics a s
  assume "resp = Inr metrics \<and> read_path metrics pa = Inr a
              \<and> (a = JUndefined \<or> a = JNull) \<and> read_path metrics pp = Inr s"
  then show "result = Inr JUndefined" by (auto simp: r k)
next
  fix metrics ps s
  assume "resp = Inr metrics \<and> read_path metrics pa = Inr (JObj ps) \<and> read_path metrics pp = Inr s"
  then show "result = Inr (JObj [(''metrics'', JObj (AList.update ''url'' (JStr u) ps)),
                                    (''performance'', s)])"
    by (simp add: r k)
qed

text \<open>
  C8, as stated: on a malformed response the runner fails with an error carrying the
  backend's message instead of resolving with a value that lacks the
  \<open>{metrics, performance}\<close> shape. The callback reads the audit items and the score
  and builds the result only under the guard that the audit items are neither
  \<open>undefined\<close> nor \<open>null\<close>; it has no other branch. What holds, for both runners:
  when the backend rejects, the runner fails with the backend's message behind its
  prefix; when a read on the way to the audit items or to the score hits \<open>undefined\<close>
  or \<open>null\<close> (the envelope or the performance category is missing), the runner fails
  with the message of the runtime's \<open>TypeError\<close> behind its prefix; when both reads
  succeed and the audit items are \<open>undefined\<close> or \<open>null\<close>, the runner resolves with
  \<open>undefined\<close>; when the audit items are an object, it resolves with the tagged items
  and the score read, which is \<open>undefined\<close> when only the score is missing.
\<close>

theorem performAudit_outcomes:
  assumes port: "debugging_port (wsEndpoint w) = Inr port"
  shows "(\<forall>b. lighthouse w i u bl port (auditConfig this) = Inl b
            \<longrightarrow> lh_performAudit rt w this i u bl = Inl (Error (''LH Audit error: '' @ message rt b)))
       \<and> (\<forall>metrics e. lighthouse w i u bl port (auditConfig this) = Inr metrics
              \<and> read_path metrics [''lhr'', ''audits''] = Inl e
            \<longrightarrow> lh_performAudit rt w this i u bl = Inl (Error (''LH Audit error: '' @ message rt e)))
       \<and> (\<forall>metrics a e. lighthouse w i u bl port (auditConfig this) = Inr metrics
              \<and> read_path metrics [''lhr'', ''audits''] = Inr a
              \<and> read_path metrics [''lhr'', ''categories'', ''performance'', ''score''] = Inl e
            \<longrightarrow> lh_performAudit rt w this i u bl = Inl (Error (''LH Audit error: '' @ message rt e)))
       \<and> (\<forall>metrics a s. lighthouse w i u bl port (auditConfig this) = Inr metrics
              \<and> read_path metrics [''lhr'', ''audits''] = Inr a
              \<and> (a = JUndefined \<or> a = JNull)
              \<and> read_path metrics [''lhr'', ''categories'', ''performance'', ''score''] = Inr s
            \<longrightarrow> lh_performAudit rt w this i u bl = Inr JUndefined)
       \<and> (\<forall>metrics ps s. lighthouse w i u bl port (auditConfig this) = Inr metrics
              \<and> read_path metrics [''lhr'', ''audits''] = Inr (JObj ps)
              \<and> read_path metrics [''lhr'', ''categories'', ''performance'', ''score''] = Inr s
            \<longrightarrow> lh_performAudit rt w this i u bl =
                 Inr (JObj [(''metrics'', JObj (AList.update ''url'' (JStr u) ps)),
                            (''performance'', s)]))
       \<and> (\<forall>b. psi pw u (psi_options_for pw m) = Inl b
            \<longrightarrow> psi_performAudit rt pw u m = Inl (Error (''PSI Audit error: '' @ message rt b)))
       \<and> (\<forall>metrics e. psi pw u (psi_options_for pw m) = Inr metrics
              \<and> read_path metrics [''data'', ''lighthouseResult'', ''audits''] = Inl e
            \<longrightarrow> psi_performAudit rt pw u m = Inl (Error (''PSI Audit error: '' @ message rt e)))
       \<and> (\<forall>metrics a e. psi pw u (psi_options_for pw m) = Inr metrics
              \<and> read_path metrics [''data'', ''lighthouseResult'', ''audits''] = Inr a
              \<and> read_path metrics
                   [''data'', ''lighthouseResult'', ''categories'', ''performance'', ''score''] = Inl e
            \<longrightarrow> psi_performAudit rt pw u m = Inl (Error (''PSI Audit error: '' @ message rt e)))
       \<and> (\<forall>metrics a s. psi pw u (psi_options_for pw m) = Inr metrics
              \<and> read_path metrics [''data'', ''lighthouseResult'', ''audits''] = Inr a
              \<and> (a = JUndefined \<or> a = JNull)
              \<and> read_path metrics
                   [''data'', ''lighthouseResult'', ''categories'', ''performance'', ''score''] = Inr s
            \<longrightarrow> psi_performAudit rt pw u m = Inr JUndefined)
       \<and> (\<forall>metrics ps s. psi pw u (psi_options_for pw m) = Inr metrics
              \<and> read_path metrics [''data'', ''lighthouseResult'', ''audits''] = Inr (JObj ps)
              \<and> read_path metrics
                   [''data'', ''lighthouseResult'', ''categories'', ''performance'', ''score''] = Inr s
            \<longrightarrow> psi_performAudit rt pw u m =
                 Inr (JObj [(''metrics'', JObj (AList.update ''url'' (JStr u) ps)),
                            (''performance'', s)]))"
proof -
  note lh = runner_outcomes [where k = "lh_then u" and pa = "[''lhr'', ''audits'']"
      and pp = "[''lhr'', ''categories'', ''performance'', ''score'']" and u = u
      and result = "lh_performAudit rt w this i u bl"
      and resp = "lighthouse w i u bl port (auditConfig this)"
      and pre = "''LH Audit error: ''" and rt = rt, OF lh_then_paths lh_performAudit_port [OF port]]
  note ps = runner_outcomes [where k = "psi_then u"
      and pa = "[''data'', ''lighthouseResult'', ''audits'']"
      and pp = "[''data'', ''lighthouseResult'', ''categories'', ''performance'', ''score'']"
      and u = u and result = "psi_performAudit rt pw u m"
      and resp = "psi pw u (psi_options_for pw m)"
      and pre = "''PSI Audit error: ''" and rt = rt, OF psi_then_paths psi_performAudit_def]
  from lh ps show ?thesis by (elim conjE, intro conjI) assumption+
qed

lemma world_no_audits_fields:
  "wsEndpoint world_no_audits = wsEndpoint world0"
  "lighthouse world_no_audits i u bl port cfg = Inr lhr_no_audits"
  by (simp_all add: world_no_audits_def)

theorem performAudit_outcomes_witness:
  "debugging_port (wsEndpoint world_no_audits) = Inr (JStr ''9222'')
   \<and> lighthouse world_no_audits 0 ''https://a.example'' [] (JStr ''9222'') PerfConfig = Inr lhr_no_audits
   \<and> read_path lhr_no_audits [''lhr'', ''audits''] = Inr JUndefined
   \<and> read_path lhr_no_audits [''lhr'', ''categories'', ''performance'', ''score''] = Inr (JNum (95 / 100))
   \<and> lh_performAudit rt0 world_no_audits lh0 0 ''https://a.example'' [] = Inr JUndefined"
proof -
  have port: "debugging_port (wsEndpoint world_no_audits) = Inr (JStr ''9222'')"
    by (simp add: world_no_audits_fields port0)
  have cfg: "auditConfig lh0 = PerfConfig" by (simp add: lh0_def new_LighthouseAudit_def)
  have resp: "lighthouse world_no_audits 0 ''https://a.example'' [] (JStr ''9222'') (auditConfig lh0) = Inr lhr_no_audits"
    by (rule world_no_audits_fields)
  have a: "read_path lhr_no_audits [''lhr'', ''audits''] = Inr JUndefined"
    by (simp add: lhr_no_audits_def)
  have s: "read_path lhr_no_audits [''lhr'', ''categories'', ''performance'', ''score''] = Inr (JNum (95 / 100))"
    by (simp add: lhr_no_audits_def)
  from performAudit_outcomes [OF port, of 0 "''https://a.example''" "[]" lh0 rt0] resp a s
  have "lh_performAudit rt0 world_no_audits lh0 0 ''https://a.example'' [] = Inr JUndefined"
    by blast
  with port resp a s show ?thesis by (simp add: cfg)
qed

text \<open>
  A response with the performance category and no audit items: both runners resolve
  with \<open>undefined\<close>.
\<close>

theorem performAudit_missing_audits_counterexample:
  "lh_performAudit rt0 world_no_audits lh0 0 ''https://a.example'' [] = Inr JUndefined
   \<and> psi_performAudit rt0 psi_world_no_audits ''https://a.example'' (Some ''mobile'') = Inr JUndefined"
  by (simp add: lh_performAudit_def world_no_audits_fields port0 lh_then_def lhr_no_audits_def
      psi_performAudit_def psi_world_no_audits_def psi_then_def)

section \<open>Properties of the synchronous endpoint\<close>

lemma performLightouseAudit_world0:
  "performLightouseAudit rt0 world0 mapping0 urls2 None m =
     Inr [record_of ''https://a.example'' (js_string m), record_of ''https://b.example'' (js_string m)]"
  by (simp add: performLightouseAudit_def Let_def run_def world0_fields try_audit_world0
      new_LighthouseAudit_def urls2_def lh_getBQFormatResults_def lh_format_audit_def
      field_values_def stamp_fields_def mapping0_def tagged_def at_index_def record_of_def)

lemma env0_fields:
  "runs env0 k = world0" "auditResultsMapping env0 = mapping0" "insert_outcome env0 rows = None"
  by (simp_all add: env0_def)

lemma tag_mode_records: "tag_mode m xs = Inr rs \<Longrightarrow> list_all is_record rs"
proof (induction xs arbitrary: rs)
  case Nil
  then show ?case by simp
next
  case (Cons x xs)
  from Cons.prems obtain t rest where
    t: "set_prop x ''mode'' m = Inr t" and rest: "tag_mode m xs = Inr rest" and rs: "rs = t # rest"
    by (cases "set_prop x ''mode'' m"; cases "tag_mode m xs") auto
  from set_prop_Inr [OF t] have "is_record t" by auto
  with Cons.IH [OF rest] rs show ?case by simp
qed

lemma performLightouseAudit_records:
  "performLightouseAudit rt w mapping us bl m = Inr results \<Longrightarrow> list_all is_record results"
  by (auto simp: performLightouseAudit_def Let_def and_then_eq_Inr dest: tag_mode_records)

lemma prepare_row_record: "\<exists>prepared. prepare_row (JObj ps) fs acc = Inr prepared"
  by (induction fs arbitrary: acc) simp_all

lemma prepare_rows_records: "list_all is_record rows \<Longrightarrow> \<exists>prepared. prepare_rows rows = Inr prepared"
proof (induction rows)
  case Nil
  show ?case by simp
next
  case (Cons row rows)
  then obtain ps where ps: "row = JObj ps" by (cases row) (simp_all add: is_record_def)
  obtain r where r: "prepare_row (JObj ps) allowedFields [] = Inr r"
    using prepare_row_record by blast
  from Cons obtain rest where "prepare_rows rows = Inr rest" by auto
  then show ?case using ps r by simp
qed

lemma performAudit_insert_irrelevant:
  "status (performAudit rt (env\<lparr>insert_outcome := f\<rparr>) p) = status (performAudit rt env p)
   \<and> json (performAudit rt (env\<lparr>insert_outcome := f\<rparr>) p) = json (performAudit rt env p)
   \<and> stored (performAudit rt (env\<lparr>insert_outcome := f\<rparr>) p) = stored (performAudit rt env p)"
  by (simp add: performAudit_def Let_def writeResultStream_def and_then_def error_response_def
      split: sum.splits option.splits)

text \<open>
  C9. Let the handler write to the store (the flag it computes is truthy), let the audits
  succeed with the records \<open>results\<close> and let the insertion fail with \<open>err\<close>. Then the
  handler answers with status 200 and the records; the rows were handed to the
  insertion, whose failure is printed on the console and nowhere else; and the answer is
  the one it gives when the insertion succeeds.
\<close>

theorem storage_failure_only_logged:
  assumes enabled: "req_storeData p = None" "truthy (req_storeDate p)"
    and audits: "performLightouseAudit rt (runs env 0) (auditResultsMapping env) (req_urls p)
        (req_blockedRequests p) (case req_mode p of None \<Rightarrow> None | Some s \<Rightarrow> Some ''mobile'')
          = Inr results"
    and fails: "\<forall>rows. insert_outcome env rows = Some err"
  shows "status (performAudit rt env p) = 200
       \<and> json (performAudit rt env p) = Records results
       \<and> stored (performAudit rt env p) \<noteq> None
       \<and> console (performAudit rt env p) = [Line ''BigQuery fail'', Json_of err]
       \<and> status (performAudit rt (env\<lparr>insert_outcome := (\<lambda>rows. None)\<rparr>) p) = 200
       \<and> json (performAudit rt (env\<lparr>insert_outcome := (\<lambda>rows. None)\<rparr>) p) = Records results"
proof -
  obtain prepared where prepared: "prepare_rows results = Inr prepared"
    using prepare_rows_records [OF performLightouseAudit_records [OF audits]] by blast
  have m: "(case req_mode p of None \<Rightarrow> None | Some s \<Rightarrow> Some ''mobile'') \<noteq> Some ''all''"
    by (cases "req_mode p") simp_all
  have resp: "performAudit rt env p =
      \<lparr>status = 200, json = Records results, stored = Some prepared,
       console = [Line ''BigQuery fail'', Json_of err]\<rparr>"
    using enabled audits fails prepared m
    by (simp add: performAudit_def Let_def writeResultStream_def)
  note same = performAudit_insert_irrelevant [where rt = rt and env = env and f = "\<lambda>rows. None" and p = p]
  show ?thesis using same by (simp add: resp)
qed

theorem storage_failure_only_logged_witness:
  "req_storeData request_storeDate = None \<and> truthy (req_storeDate request_storeDate)
   \<and> insert_outcome env_quota [] = Some (Error ''quota exceeded'')
   \<and> status (performAudit rt0 env_quota request_storeDate) = 200
   \<and> json (performAudit rt0 env_quota request_storeDate) =
       Records [record_of ''https://a.example'' (JStr ''mobile''),
                record_of ''https://b.example'' (JStr ''mobile'')]
   \<and> console (performAudit rt0 env_quota request_storeDate) =
       [Line ''BigQuery fail'', Json_of (Error ''quota exceeded'')]"
proof -
  have q: "runs env_quota 0 = world0" "auditResultsMapping env_quota = mapping0"
    "\<forall>rows. insert_outcome env_quota rows = Some (Error ''quota exceeded'')"
    by (simp_all add: env_quota_def env0_def)
  have r: "req_storeData request_storeDate = None" "truthy (req_storeDate request_storeDate)"
    "req_urls request_storeDate = urls2" "req_blockedRequests request_storeDate = None"
    "req_mode request_storeDate = Some ''mobile''"
    by (simp_all add: request_storeDate_def)
  have audits: "performLightouseAudit rt0 (runs env_quota 0) (auditResultsMapping env_quota)
        (req_urls request_storeDate) (req_blockedRequests request_storeDate)
        (case req_mode request_storeDate of None \<Rightarrow> None | Some s \<Rightarrow> Some ''mobile'')
          = Inr [record_of ''https://a.example'' (JStr ''mobile''),
                 record_of ''https://b.example'' (JStr ''mobile'')]"
    by (simp add: q r performLightouseAudit_world0 js_string_def)
  from storage_failure_only_logged [OF r(1) r(2) audits q(3)]
  show ?thesis using r q by simp
qed

text \<open>
  C1. The claim is that a request with \<open>mode = "all"\<close> runs the orchestrator twice and
  returns the records of the desktop run followed by those of the mobile run. The handler
  has that branch, but the line before it replaces every mode that is a string by
  \<open>mobile\<close> (its test on \<open>typeof payload.mode\<close> is the wrong way round), so the branch is
  never taken. For a batch of two URLs and \<open>mode = "all"\<close> the handler runs once and
  returns two records, both tagged \<open>mobile\<close>.
\<close>

theorem performAudit_mode_all_runs_once:
  "performAudit rt0 env0 request_all =
     \<lparr>status = 200,
      json = Records [record_of ''https://a.example'' (JStr ''mobile''),
                      record_of ''https://b.example'' (JStr ''mobile'')],
      stored = None, console = []\<rparr>"
  by (simp add: performAudit_def Let_def request_all_def env0_fields
      performLightouseAudit_world0 js_string_def)

text \<open>
  C2. The claim is that the store is written exactly when \<open>storeData\<close> is \<open>true\<close>. The
  handler turns every boolean \<open>storeData\<close> into \<open>false\<close> and otherwise reads the field
  \<open>storeDate\<close>: a request with \<open>storeData = true\<close> writes nothing, and a request
  without \<open>storeData\<close> whose \<open>storeDate\<close> is \<open>true\<close> writes.
\<close>

theorem performAudit_storeData_true_not_stored:
  "stored (performAudit rt0 env0 request_storeData) = None
   \<and> stored (performAudit rt0 env0 request_storeDate) \<noteq> None"
proof -
  have rows: "list_all is_record [record_of ''https://a.example'' (JStr ''mobile''),
                      record_of ''https://b.example'' (JStr ''mobile'')]"
    by (simp add: record_of_def)
  obtain prepared where p: "prepare_rows [record_of ''https://a.example'' (JStr ''mobile''),
                      record_of ''https://b.example'' (JStr ''mobile'')] = Inr prepared"
    using prepare_rows_records [OF rows] by blast
  have a: "stored (performAudit rt0 env0 request_storeData) = None"
    by (simp add: performAudit_def Let_def request_storeData_def env0_fields
      performLightouseAudit_world0 js_string_def)
  have b: "stored (performAudit rt0 env0 request_storeDate) = Some prepared"
    using p by (simp add: performAudit_def Let_def request_storeDate_def env0_fields
      performLightouseAudit_world0 js_string_def writeResultStream_def)
  show ?thesis using a b by simp
qed

end
